theory Spec2Isabelle
  imports Main
begin

section \<open>Values, exceptions and text\<close>

text \<open>
  The request and column values are JSON documents. A Python \<open>dict\<close> parsed from JSON is
  an association list of its items; numbers are integers.
\<close>

datatype json =
    JNull
  | JBool bool
  | JNum int
  | JStr string
  | JArr "json list"
  | JObj "(string \<times> json) list"

text \<open>
  The exceptions that travel through the routes. \<open>HTTPException\<close> carries
  \<open>status_code\<close> and \<open>detail\<close>; \<open>RequestValidationError\<close> is what the framework
  raises when a request body does not validate against its pydantic schema; the others
  carry the text that \<open>str(e)\<close> gives.
\<close>

datatype exn =
    HTTPException int string
  | RequestValidationError string
  | ValueError string
  | TypeError string
  | AttributeError string
  | OSError string
  | OverflowError string
  | SQLAlchemyError string

function str_nat :: "nat \<Rightarrow> string" where
  "str_nat n =
     (if n < 10 then [''0123456789'' ! n]
      else str_nat (n div 10) @ [''0123456789'' ! (n mod 10)])"
  by pat_completeness auto
termination
  by (relation "measure (\<lambda>n. n)") auto

declare str_nat.simps [simp del]

definition str_int :: "int \<Rightarrow> string" where
  "str_int i = (if i < 0 then CHR ''-'' # str_nat (nat (- i)) else str_nat (nat i))"

fun str_exn :: "exn \<Rightarrow> string" where
  "str_exn (HTTPException s d) = str_int s @ '': '' @ d"
| "str_exn (RequestValidationError m) = m"
| "str_exn (ValueError m) = m"
| "str_exn (TypeError m) = m"
| "str_exn (AttributeError m) = m"
| "str_exn (OSError m) = m"
| "str_exn (OverflowError m) = m"
| "str_exn (SQLAlchemyError m) = m"

definition quoted :: "string \<Rightarrow> string" where
  "quoted s = CHR 0x27 # s @ [CHR 0x27]"

definition startswith :: "string \<Rightarrow> string \<Rightarrow> bool" where
  "startswith s p = (take (length p) s = p)"

fun type_name :: "json \<Rightarrow> string" where
  "type_name JNull = ''NoneType''"
| "type_name (JBool _) = ''bool''"
| "type_name (JNum _) = ''int''"
| "type_name (JStr _) = ''str''"
| "type_name (JArr _) = ''list''"
| "type_name (JObj _) = ''dict''"

text \<open>Python's \<open>len\<close>: defined on lists, strings and dicts, a \<open>TypeError\<close> elsewhere.\<close>

fun len :: "json \<Rightarrow> exn + nat" where
  "len (JArr xs) = Inr (length xs)"
| "len (JStr s) = Inr (length s)"
| "len (JObj kvs) = Inr (length kvs)"
| "len v = Inl (TypeError (''object of type '' @ quoted (type_name v) @ '' has no len()''))"

text \<open>\<open>d.get(key, default)\<close>: a method of dicts only.\<close>

fun dict_get :: "json \<Rightarrow> string \<Rightarrow> json \<Rightarrow> exn + json" where
  "dict_get (JObj kvs) k dflt = Inr (case map_of kvs k of None \<Rightarrow> dflt | Some v \<Rightarrow> v)"
| "dict_get v k dflt = Inl (AttributeError (quoted (type_name v) @ '' object has no attribute '' @ quoted ''get''))"

fun is_substring :: "string \<Rightarrow> string \<Rightarrow> bool" where
  "is_substring p [] = (p = [])"
| "is_substring p (c # cs) = (startswith (c # cs) p \<or> is_substring p cs)"

text \<open>\<open>field in v\<close>: key membership for a dict, element membership for a list, substring
  for a string, a \<open>TypeError\<close> for a value that is not a container.\<close>

fun py_in :: "string \<Rightarrow> json \<Rightarrow> exn + bool" where
  "py_in k (JObj kvs) = Inr (k \<in> set (map fst kvs))"
| "py_in k (JArr xs) = Inr (JStr k \<in> set xs)"
| "py_in k (JStr s) = Inr (is_substring k s)"
| "py_in k v = Inl (TypeError (''argument of type '' @ quoted (type_name v) @ '' is not iterable''))"

section \<open>schemas.py\<close>

text \<open>
  \<open>QuestionPaperBase.validate_details\<close>. \<open>json.loads\<close> is a parameter: \<open>None\<close> stands for
  \<open>JSONDecodeError\<close>; handed a value that is not text it raises \<open>TypeError\<close>, which the
  \<open>except json.JSONDecodeError\<close> clause does not catch.
\<close>

fun check_required_fields :: "string list \<Rightarrow> json \<Rightarrow> exn + json" where
  "check_required_fields [] v = Inr v"
| "check_required_fields (field # fields) v =
     (case py_in field v of
        Inl e \<Rightarrow> Inl e
      | Inr present \<Rightarrow>
          if \<not> present then Inl (ValueError (''Missing required field: '' @ field))
          else check_required_fields fields v)"

definition validate_details :: "(string \<Rightarrow> json option) \<Rightarrow> json \<Rightarrow> exn + json" where
  "validate_details json_loads v =
     (case (case v of
              JObj kvs \<Rightarrow> Inr v
            | JStr s \<Rightarrow>
                (case json_loads s of
                   None \<Rightarrow> Inl (ValueError ''Invalid JSON format for details'')
                 | Some v' \<Rightarrow> Inr v')
            | _ \<Rightarrow> Inl (TypeError (''the JSON object must be str, bytes or bytearray, not '' @ type_name v))) of
        Inl e \<Rightarrow> Inl e
      | Inr v' \<Rightarrow> check_required_fields [''questions'', ''answers''] v')"

text \<open>
  Parsing a request body as \<open>QuestionPaperCreate\<close>. The body must be an object with the
  field \<open>details\<close>, declared \<open>details: Dict\<close>: pydantic accepts only a mapping for it and
  runs the validator afterwards. A \<open>ValueError\<close> raised by the validator becomes a
  validation error of the request; any other exception of the validator propagates.
\<close>

definition QuestionPaperCreate :: "(string \<Rightarrow> json option) \<Rightarrow> json \<Rightarrow> exn + json" where
  "QuestionPaperCreate json_loads body =
     (case body of
        JObj kvs \<Rightarrow>
          (case map_of kvs ''details'' of
             None \<Rightarrow> Inl (RequestValidationError ''Field required'')
           | Some d \<Rightarrow>
               (case d of
                  JObj _ \<Rightarrow>
                    (case validate_details json_loads d of
                       Inl (ValueError m) \<Rightarrow> Inl (RequestValidationError (''Value error, '' @ m))
                     | Inl e \<Rightarrow> Inl e
                     | Inr d' \<Rightarrow> Inr d')
                | _ \<Rightarrow> Inl (RequestValidationError ''Input should be a valid dictionary'')))
      | _ \<Rightarrow> Inl (RequestValidationError ''Input should be a valid dictionary or object''))"

section \<open>models.py and database.py\<close>

record question_paper =
  qp_id :: string
  details :: json

record result =
  result_id :: int
  roll_number :: string
  question_paper_id :: string
  marks :: int

text \<open>The two tables, each in its row order.\<close>

record store =
  question_papers :: "question_paper list"
  results :: "result list"

text \<open>What a request cannot decide: the identifier drawn by \<open>uuid.uuid4\<close> and the
  failures of the database and of the file system, each with the text of its exception.\<close>

datatype save_failure = OpenFailed string | WriteFailed string string

record env =
  uuid4 :: string
  commit_error :: "string option"
  save_error :: "save_failure option"
  remove_error :: "string option"

text \<open>
  The state a request runs in: the committed database, the view of the request's session
  (the committed rows and its own uncommitted changes), the files of the upload
  directory, the state of the \<open>random\<close> module as the sequence of the 32-bit words
  its generator will put out, and what was printed.
\<close>

record state =
  durable :: store
  txn :: store
  uploads :: "string \<rightharpoonup> string"
  rng :: "nat \<Rightarrow> int"
  stdout :: "string list"

definition first :: "'a list \<Rightarrow> 'a option" where
  "first xs = (case xs of [] \<Rightarrow> None | x # _ \<Rightarrow> Some x)"

text \<open>
  \<open>OFFSET\<close> and \<open>LIMIT\<close> as SQLite evaluates them (database.py binds the engine to
  \<open>sqlite:///\<close>). The number is bound as a parameter of the statement, an \<open>INTEGER\<close> of
  64 bits with sign: binding a Python \<open>int\<close> outside that range raises
  \<open>OverflowError\<close>. Within the range a negative offset counts as zero and a negative
  limit is no limit.
\<close>

definition sqlite_integer :: "int \<Rightarrow> bool" where
  "sqlite_integer i = (- 9223372036854775808 \<le> i \<and> i \<le> 9223372036854775807)"

definition offset :: "int \<Rightarrow> 'a list \<Rightarrow> exn + 'a list" where
  "offset k xs =
     (if \<not> sqlite_integer k
      then Inl (OverflowError ''Python int too large to convert to SQLite INTEGER'')
      else Inr (if k < 0 then xs else drop (nat k) xs))"

definition limit :: "int \<Rightarrow> 'a list \<Rightarrow> exn + 'a list" where
  "limit n xs =
     (if \<not> sqlite_integer n
      then Inl (OverflowError ''Python int too large to convert to SQLite INTEGER'')
      else Inr (if n < 0 then xs else take (nat n) xs))"

text \<open>
  \<open>commit\<close> writes the session's view to the database, or raises and writes nothing: on a
  failure of the database, or when two question papers would share the primary key.
  \<open>rollback\<close> drops the uncommitted changes. \<open>get_db\<close> opens a session on the committed
  rows and closes it when the request ends.
\<close>

definition commit :: "env \<Rightarrow> state \<Rightarrow> exn + state" where
  "commit e s =
     (case commit_error e of
        Some m \<Rightarrow> Inl (SQLAlchemyError m)
      | None \<Rightarrow>
          if distinct (map qp_id (question_papers (txn s)))
          then Inr (s\<lparr>durable := txn s\<rparr>)
          else Inl (SQLAlchemyError ''UNIQUE constraint failed: question_papers.id''))"

definition rollback :: "state \<Rightarrow> state" where
  "rollback s = s\<lparr>txn := durable s\<rparr>"

definition session_open :: "state \<Rightarrow> state" where
  "session_open s = s\<lparr>txn := durable s\<rparr>"

definition session_close :: "state \<Rightarrow> state" where
  "session_close s = s\<lparr>txn := durable s\<rparr>"

text \<open>The key SQLite gives a new row of \<open>results\<close>: one more than the largest in the
  table, 1 in an empty table.\<close>

definition next_result_id :: "result list \<Rightarrow> int" where
  "next_result_id rs = fold max (map result_id rs) 0 + 1"

section \<open>routes/questions.py\<close>

definition not_found_paper :: "string \<Rightarrow> exn" where
  "not_found_paper pid = HTTPException 404 (''Question paper with id '' @ pid @ '' not found'')"

definition create_question_paper :: "json \<Rightarrow> env \<Rightarrow> state \<Rightarrow> (exn + question_paper) \<times> state" where
  "create_question_paper d e s =
     (let db_question_paper = \<lparr>qp_id = uuid4 e, details = d\<rparr>;
          s1 = s\<lparr>txn := (txn s)\<lparr>question_papers := question_papers (txn s) @ [db_question_paper]\<rparr>\<rparr>
      in case commit e s1 of
           Inr s2 \<Rightarrow> (Inr db_question_paper, s2)
         | Inl x \<Rightarrow>
             (Inl (HTTPException 400 (''Error creating question paper: '' @ str_exn x)),
              rollback s1))"

definition get_question_papers ::
  "int option \<Rightarrow> int option \<Rightarrow> state \<Rightarrow> exn + question_paper list" where
  "get_question_papers skip lim s =
     (case offset (case skip of None \<Rightarrow> 0 | Some k \<Rightarrow> k) (question_papers (txn s)) of
        Inl x \<Rightarrow> Inl x
      | Inr rows \<Rightarrow> limit (case lim of None \<Rightarrow> 10 | Some n \<Rightarrow> n) rows)"

definition get_question_paper :: "string \<Rightarrow> state \<Rightarrow> exn + question_paper" where
  "get_question_paper pid s =
     (case first (filter (\<lambda>p. qp_id p = pid) (question_papers (txn s))) of
        None \<Rightarrow> Inl (not_found_paper pid)
      | Some question_paper \<Rightarrow> Inr question_paper)"

definition update_question_paper ::
  "string \<Rightarrow> json \<Rightarrow> env \<Rightarrow> state \<Rightarrow> (exn + question_paper) \<times> state" where
  "update_question_paper pid d e s =
     (case first (filter (\<lambda>p. qp_id p = pid) (question_papers (txn s))) of
        None \<Rightarrow> (Inl (not_found_paper pid), s)
      | Some db_question_paper \<Rightarrow>
          (let s1 = s\<lparr>txn := (txn s)\<lparr>question_papers :=
                      map (\<lambda>p. if qp_id p = pid then p\<lparr>details := d\<rparr> else p)
                        (question_papers (txn s))\<rparr>\<rparr>
           in case commit e s1 of
                Inr s2 \<Rightarrow> (Inr (db_question_paper\<lparr>details := d\<rparr>), s2)
              | Inl x \<Rightarrow>
                  (Inl (HTTPException 400 (''Error updating question paper: '' @ str_exn x)),
                   rollback s1)))"

text \<open>
  \<open>db.delete\<close> of a question paper: the relationship \<open>results\<close> is declared with
  \<open>cascade="all, delete-orphan"\<close>, so the session deletes the paper's results with it.
\<close>

definition delete_question_paper :: "string \<Rightarrow> env \<Rightarrow> state \<Rightarrow> (exn + string) \<times> state" where
  "delete_question_paper pid e s =
     (case first (filter (\<lambda>p. qp_id p = pid) (question_papers (txn s))) of
        None \<Rightarrow> (Inl (not_found_paper pid), s)
      | Some db_question_paper \<Rightarrow>
          (let s1 = s\<lparr>txn := (txn s)\<lparr>
                      question_papers :=
                        filter (\<lambda>p. qp_id p \<noteq> qp_id db_question_paper) (question_papers (txn s)),
                      results :=
                        filter (\<lambda>r. question_paper_id r \<noteq> qp_id db_question_paper) (results (txn s))\<rparr>\<rparr>
           in case commit e s1 of
                Inr s2 \<Rightarrow> (Inr (''Question paper '' @ pid @ '' deleted successfully''), s2)
              | Inl x \<Rightarrow>
                  (Inl (HTTPException 400 (''Error deleting question paper: '' @ str_exn x)),
                   rollback s1)))"

section \<open>services/omr_service.py\<close>

text \<open>
  The functions of the module \<open>random\<close> that the service calls, on the generator as the
  sequence of the words it will put out. \<open>genrand_uint32\<close> takes the next word, a number
  of 32 bits. \<open>getrandbits(k)\<close> takes one word and keeps its \<open>k\<close> high bits when
  \<open>k \<le> 32\<close>, and otherwise fills the number by words from the least significant, the
  last one cut to the bits that remain.
\<close>

type_synonym generator = "nat \<Rightarrow> int"

definition genrand_uint32 :: "generator \<Rightarrow> int \<times> generator" where
  "genrand_uint32 g = (g 0 mod 4294967296, \<lambda>i. g (Suc i))"

function getrandbits :: "nat \<Rightarrow> generator \<Rightarrow> int \<times> generator" where
  "getrandbits k g =
     (if k = 0 then (0, g)
      else if k \<le> 32 then (fst (genrand_uint32 g) div 2 ^ (32 - k), snd (genrand_uint32 g))
      else (fst (genrand_uint32 g) + 4294967296 * fst (getrandbits (k - 32) (snd (genrand_uint32 g))),
            snd (getrandbits (k - 32) (snd (genrand_uint32 g)))))"
  by pat_completeness auto
termination
  by (relation "measure fst") auto

declare getrandbits.simps [simp del]

text \<open>\<open>n.bit_length()\<close>: the number of bits of the absolute value of \<open>n\<close>.\<close>

function bit_length :: "int \<Rightarrow> nat" where
  "bit_length n = (if n = 0 then 0 else Suc (bit_length (\<bar>n\<bar> div 2)))"
  by pat_completeness auto
termination
  by (relation "measure (\<lambda>n. nat \<bar>n\<bar>)") auto

declare bit_length.simps [simp del]

text \<open>
  \<open>_randbelow_with_getrandbits(n)\<close>: draw \<open>k = n.bit_length()\<close> bits, and draw again
  while the number drawn is not below \<open>n\<close>. The loop ends at the first draw below \<open>n\<close>;
  on a generator that never puts one out it does not end, which is the value \<open>None\<close>.
\<close>

partial_function (option) randbelow_while ::
  "int \<Rightarrow> nat \<Rightarrow> int \<Rightarrow> generator \<Rightarrow> (int \<times> generator) option" where
  "randbelow_while n k r g =
     (if r \<ge> n then randbelow_while n k (fst (getrandbits k g)) (snd (getrandbits k g))
      else Some (r, g))"

declare randbelow_while.simps [code]

definition randbelow_with_getrandbits :: "int \<Rightarrow> generator \<Rightarrow> (int \<times> generator) option" where
  "randbelow_with_getrandbits n g =
     (let k = bit_length n
      in randbelow_while n k (fst (getrandbits k g)) (snd (getrandbits k g)))"

text \<open>\<open>randrange(start, stop)\<close> with the step 1, and \<open>randint(a, b)\<close>, which is
  \<open>randrange(a, b + 1)\<close>.\<close>

definition randrange :: "int \<Rightarrow> int \<Rightarrow> generator \<Rightarrow> ((exn + int) \<times> generator) option" where
  "randrange start stop g =
     (let width = stop - start
      in if width > 0 then
           (case randbelow_with_getrandbits width g of
              None \<Rightarrow> None
            | Some (r, g1) \<Rightarrow> Some (Inr (start + r), g1))
         else Some (Inl (ValueError (''empty range in randrange('' @ str_int start @ '', '' @
                      str_int stop @ '')'')), g))"

definition randint :: "int \<Rightarrow> int \<Rightarrow> generator \<Rightarrow> ((exn + int) \<times> generator) option" where
  "randint a b g = randrange a (b + 1) g"

text \<open>\<open>randbytes(n)\<close> is \<open>getrandbits(n * 8).to_bytes(n, 'little')\<close>; \<open>hex\<close> writes each
  byte as two hexadecimal digits.\<close>

fun to_bytes_little :: "nat \<Rightarrow> int \<Rightarrow> int list" where
  "to_bytes_little 0 x = []"
| "to_bytes_little (Suc n) x = (x mod 256) # to_bytes_little n (x div 256)"

definition randbytes :: "nat \<Rightarrow> generator \<Rightarrow> int list \<times> generator" where
  "randbytes n g = (to_bytes_little n (fst (getrandbits (n * 8) g)), snd (getrandbits (n * 8) g))"

definition hex_byte :: "int \<Rightarrow> string" where
  "hex_byte b =
     [''0123456789abcdef'' ! nat (b div 16 mod 16), ''0123456789abcdef'' ! nat (b mod 16)]"

definition hex :: "int list \<Rightarrow> string" where
  "hex bs = concat (map hex_byte bs)"

record upload_file =
  filename :: "string option"
  content_type :: "string option"
  content :: string

definition UPLOAD_DIR :: string where
  "UPLOAD_DIR = ''uploads''"

text \<open>
  \<open>save_upload_file\<close>. Opening the file for writing creates it; a failure of the
  open leaves no file, a failure of the read or of the write leaves the file with what
  had reached it. Every failure is reported as status 500.
\<close>

definition save_upload_file :: "upload_file \<Rightarrow> env \<Rightarrow> state \<Rightarrow> (exn + string) \<times> state" where
  "save_upload_file upload e s =
     (let (token, g) = randbytes 8 (rng s);
          file_path = UPLOAD_DIR @ ''/'' @ hex token @ ''_'' @
                        (case filename upload of None \<Rightarrow> ''None'' | Some n \<Rightarrow> n);
          s1 = s\<lparr>rng := g\<rparr>
      in case save_error e of
           None \<Rightarrow> (Inr file_path, s1\<lparr>uploads := (uploads s1)(file_path \<mapsto> content upload)\<rparr>)
         | Some (OpenFailed m) \<Rightarrow>
             (Inl (HTTPException 500 (''Error saving file: '' @ m)), s1)
         | Some (WriteFailed written m) \<Rightarrow>
             (Inl (HTTPException 500 (''Error saving file: '' @ m)),
              s1\<lparr>uploads := (uploads s1)(file_path \<mapsto> written)\<rparr>))"

definition cleanup_file :: "string \<Rightarrow> env \<Rightarrow> state \<Rightarrow> state" where
  "cleanup_file file_path e s =
     (if uploads s file_path \<noteq> None then
        (case remove_error e of
           None \<Rightarrow> s\<lparr>uploads := (uploads s)(file_path := None)\<rparr>
         | Some m \<Rightarrow>
             s\<lparr>stdout := stdout s @ [''Error cleaning up file '' @ file_path @ '': '' @ m]\<rparr>)
      else s)"

text \<open>
  The body of the \<open>try\<close> block of \<open>evaluate_omr\<close>, then the function with its
  \<open>except\<close> clauses and its \<open>finally\<close>. The value \<open>None\<close> is a call that does not
  return, its sampling loop never ending; nothing runs after it, the \<open>finally\<close> clause
  included.
\<close>

definition evaluate_omr_body :: "string \<Rightarrow> state \<Rightarrow> ((exn + int) \<times> state) option" where
  "evaluate_omr_body pid s =
     (case first (filter (\<lambda>p. qp_id p = pid) (question_papers (txn s))) of
        None \<Rightarrow> Some (Inl (not_found_paper pid), s)
      | Some question_paper \<Rightarrow>
          (case dict_get (details question_paper) ''questions'' (JArr []) of
             Inl x \<Rightarrow> Some (Inl x, s)
           | Inr qs \<Rightarrow>
               (case len qs of
                  Inl x \<Rightarrow> Some (Inl x, s)
                | Inr total_questions \<Rightarrow>
                    (case randint 0 (int total_questions) (rng s) of
                       None \<Rightarrow> None
                     | Some (m, g) \<Rightarrow> Some (m, s\<lparr>rng := g\<rparr>)))))"

fun evaluate_omr_except :: "exn + int \<Rightarrow> exn + int" where
  "evaluate_omr_except (Inr m) = Inr m"
| "evaluate_omr_except (Inl (HTTPException c d)) = Inl (HTTPException c d)"
| "evaluate_omr_except (Inl x) =
     Inl (HTTPException 500 (''Error processing OMR sheet: '' @ str_exn x))"

definition evaluate_omr ::
  "string \<Rightarrow> string \<Rightarrow> env \<Rightarrow> state \<Rightarrow> ((exn + int) \<times> state) option" where
  "evaluate_omr file_path pid e s =
     (case evaluate_omr_body pid s of
        None \<Rightarrow> None
      | Some (r, s1) \<Rightarrow> Some (evaluate_omr_except r, cleanup_file file_path e s1))"

section \<open>routes/evaluate.py\<close>

text \<open>The \<open>except\<close> clauses of \<open>evaluate_omr_sheet\<close>: an \<open>HTTPException\<close> is raised
  again as it is, anything else rolls the session back and becomes status 500.\<close>

fun evaluate_except :: "exn \<Rightarrow> state \<Rightarrow> (exn + result) \<times> state" where
  "evaluate_except (HTTPException c d) s = (Inl (HTTPException c d), s)"
| "evaluate_except x s =
     (Inl (HTTPException 500 (''Error processing evaluation: '' @ str_exn x)), rollback s)"

definition evaluate_omr_sheet ::
  "string \<Rightarrow> string \<Rightarrow> upload_file \<Rightarrow> env \<Rightarrow> state \<Rightarrow> ((exn + result) \<times> state) option" where
  "evaluate_omr_sheet roll pid omr_sheet e s =
     (case content_type omr_sheet of
        None \<Rightarrow> Some (Inl (AttributeError (quoted ''NoneType'' @ '' object has no attribute '' @ quoted ''startswith'')), s)
      | Some ct \<Rightarrow>
          if \<not> startswith ct ''image/'' then
            Some (Inl (HTTPException 400 ''File must be an image''), s)
          else
            (case save_upload_file omr_sheet e s of
               (Inl x, s1) \<Rightarrow> Some (evaluate_except x s1)
             | (Inr file_path, s1) \<Rightarrow>
                 (case evaluate_omr file_path pid e s1 of
                    None \<Rightarrow> None
                  | Some (Inl x, s2) \<Rightarrow> Some (evaluate_except x s2)
                  | Some (Inr m, s2) \<Rightarrow>
                      (let res = \<lparr>result_id = next_result_id (results (txn s2)),
                                  roll_number = roll, question_paper_id = pid, marks = m\<rparr>;
                           s3 = s2\<lparr>txn := (txn s2)\<lparr>results := results (txn s2) @ [res]\<rparr>\<rparr>
                       in case commit e s3 of
                            Inl x \<Rightarrow> Some (evaluate_except x s3)
                          | Inr s4 \<Rightarrow> Some (Inr res, s4)))))"

text \<open>\<open>if roll_number:\<close> holds for a parameter that is given and not empty.\<close>

definition truthy :: "string option \<Rightarrow> bool" where
  "truthy p = (case p of None \<Rightarrow> False | Some v \<Rightarrow> v \<noteq> [])"

definition get_results ::
  "string option \<Rightarrow> string option \<Rightarrow> int option \<Rightarrow> int option \<Rightarrow> state \<Rightarrow>
     exn + result list" where
  "get_results roll pid skip lim s =
     (let query = results (txn s);
          query = (if truthy roll then filter (\<lambda>r. Some (roll_number r) = roll) query else query);
          query = (if truthy pid then filter (\<lambda>r. Some (question_paper_id r) = pid) query else query)
      in case offset (case skip of None \<Rightarrow> 0 | Some k \<Rightarrow> k) query of
           Inl x \<Rightarrow> Inl x
         | Inr rows \<Rightarrow> limit (case lim of None \<Rightarrow> 10 | Some n \<Rightarrow> n) rows)"

definition get_result :: "int \<Rightarrow> state \<Rightarrow> exn + result" where
  "get_result rid s =
     (case first (filter (\<lambda>r. result_id r = rid) (results (txn s))) of
        None \<Rightarrow> Inl (HTTPException 404 (''Result with id '' @ str_int rid @ '' not found''))
      | Some res \<Rightarrow> Inr res)"

section \<open>main.py\<close>

text \<open>
  What the application answers. A value returned by a route is sent with the route's
  status code. An \<open>HTTPException\<close> is answered by \<open>http_exception_handler\<close> with its own
  status and detail; a \<open>RequestValidationError\<close>, for which main.py registers no handler,
  by the framework's own handler with status 422; every other exception by
  \<open>general_exception_handler\<close> with status 500 and a fixed message.
\<close>

datatype 'a response = Response int 'a | ErrorResponse int string

fun exception_handler :: "exn \<Rightarrow> 'a response" where
  "exception_handler (HTTPException c d) = ErrorResponse c d"
| "exception_handler (RequestValidationError m) = ErrorResponse 422 m"
| "exception_handler x = ErrorResponse 500 ''Internal server error''"

definition respond :: "int \<Rightarrow> (exn + 'a) \<times> state \<Rightarrow> 'a response \<times> state" where
  "respond code rs =
     (case rs of
        (Inl x, s) \<Rightarrow> (exception_handler x, session_close s)
      | (Inr v, s) \<Rightarrow> (Response code v, session_close s))"

text \<open>The endpoints: the body is validated, the session opened, the route run, the
  session closed.\<close>

definition POST_questions ::
  "(string \<Rightarrow> json option) \<Rightarrow> json \<Rightarrow> env \<Rightarrow> state \<Rightarrow> question_paper response \<times> state" where
  "POST_questions json_loads body e s =
     (case QuestionPaperCreate json_loads body of
        Inl x \<Rightarrow> (exception_handler x, s)
      | Inr d \<Rightarrow> respond 201 (create_question_paper d e (session_open s)))"

definition GET_questions :: "int option \<Rightarrow> int option \<Rightarrow> state \<Rightarrow> question_paper list response \<times> state" where
  "GET_questions skip lim s = respond 200 (get_question_papers skip lim (session_open s), session_open s)"

definition GET_question :: "string \<Rightarrow> state \<Rightarrow> question_paper response \<times> state" where
  "GET_question pid s = respond 200 (get_question_paper pid (session_open s), session_open s)"

definition PUT_question ::
  "(string \<Rightarrow> json option) \<Rightarrow> string \<Rightarrow> json \<Rightarrow> env \<Rightarrow> state \<Rightarrow> question_paper response \<times> state" where
  "PUT_question json_loads pid body e s =
     (case QuestionPaperCreate json_loads body of
        Inl x \<Rightarrow> (exception_handler x, s)
      | Inr d \<Rightarrow> respond 200 (update_question_paper pid d e (session_open s)))"

definition DELETE_question :: "string \<Rightarrow> env \<Rightarrow> state \<Rightarrow> string response \<times> state" where
  "DELETE_question pid e s = respond 200 (delete_question_paper pid e (session_open s))"

text \<open>A request for an evaluation is answered when its route returns: \<open>None\<close> is the
  request that never is.\<close>

definition POST_evaluate ::
  "string \<Rightarrow> string \<Rightarrow> upload_file \<Rightarrow> env \<Rightarrow> state \<Rightarrow> (result response \<times> state) option" where
  "POST_evaluate roll pid omr_sheet e s =
     map_option (respond 200) (evaluate_omr_sheet roll pid omr_sheet e (session_open s))"

definition GET_results ::
  "string option \<Rightarrow> string option \<Rightarrow> int option \<Rightarrow> int option \<Rightarrow> state \<Rightarrow> result list response \<times> state" where
  "GET_results roll pid skip lim s =
     respond 200 (get_results roll pid skip lim (session_open s), session_open s)"

definition GET_result :: "int \<Rightarrow> state \<Rightarrow> result response \<times> state" where
  "GET_result rid s = respond 200 (get_result rid (session_open s), session_open s)"

fun status_of :: "'a response \<Rightarrow> int" where
  "status_of (Response c v) = c"
| "status_of (ErrorResponse c d) = c"

section \<open>The states the service can reach\<close>

text \<open>
  The service starts on empty tables (\<open>create_tables\<close> at startup) and an empty upload
  directory, and moves from one state to the next by answering a request.
\<close>

definition initial :: "(nat \<Rightarrow> int) \<Rightarrow> state" where
  "initial g =
     \<lparr>durable = \<lparr>question_papers = [], results = []\<rparr>,
      txn = \<lparr>question_papers = [], results = []\<rparr>,
      uploads = Map.empty, rng = g, stdout = []\<rparr>"

inductive reachable :: "state \<Rightarrow> bool" where
  startup: "reachable (initial g)"
| post_questions: "reachable s \<Longrightarrow> reachable (snd (POST_questions json_loads body e s))"
| get_questions: "reachable s \<Longrightarrow> reachable (snd (GET_questions skip lim s))"
| get_question: "reachable s \<Longrightarrow> reachable (snd (GET_question pid s))"
| put_question: "reachable s \<Longrightarrow> reachable (snd (PUT_question json_loads pid body e s))"
| delete_question: "reachable s \<Longrightarrow> reachable (snd (DELETE_question pid e s))"
| post_evaluate: "reachable s \<Longrightarrow> POST_evaluate roll pid omr_sheet e s = Some (resp, s') \<Longrightarrow>
     reachable s'"
| get_results: "reachable s \<Longrightarrow> reachable (snd (GET_results roll pid skip lim s))"
| get_result: "reachable s \<Longrightarrow> reachable (snd (GET_result rid s))"

text \<open>The constraints of the two tables: the primary keys are unique, and the foreign key
  of every result names a question paper of the table.\<close>

definition store_ok :: "store \<Rightarrow> bool" where
  "store_ok st =
     (distinct (map qp_id (question_papers st)) \<and>
      distinct (map result_id (results st)) \<and>
      (\<forall>r \<in> set (results st). question_paper_id r \<in> set (map qp_id (question_papers st))))"

section \<open>The draws behind the marks\<close>

text \<open>
  \<open>draws k g j\<close> are the numbers that \<open>j\<close> successive calls of \<open>getrandbits(k)\<close> return on
  the generator \<open>g\<close>, and \<open>after_draws k g j\<close> is the generator they leave.
  \<open>first_below n ds\<close> is the first number below \<open>n\<close> in a sequence of draws, and
  \<open>draw_sequences k j\<close> are the sequences of \<open>j\<close> numbers of \<open>k\<close> bits.
\<close>

fun draws :: "nat \<Rightarrow> generator \<Rightarrow> nat \<Rightarrow> int list" where
  "draws k g 0 = []"
| "draws k g (Suc j) = fst (getrandbits k g) # draws k (snd (getrandbits k g)) j"


definition first_below :: "int \<Rightarrow> int list \<Rightarrow> int option" where
  "first_below n ds = find (\<lambda>d. d < n) ds"


text \<open>The details document of a request, parsed from text when it is given as serialized
  JSON.\<close>

definition details_document :: "(string \<Rightarrow> json option) \<Rightarrow> json \<Rightarrow> json option" where
  "details_document json_loads d = (case d of JStr t \<Rightarrow> json_loads t | _ \<Rightarrow> Some d)"

section \<open>A sample run\<close>

text \<open>
  A question paper with three questions is created on the empty service, then two answer
  sheets are evaluated against it. The generator puts out the word \<open>0x60000000\<close>, except
  for its third word, \<open>0xE0000000\<close>: the first evaluation draws 7, which is not below 4,
  and draws again.
\<close>

definition example_details :: json where
  "example_details =
     JObj [(''questions'', JArr [JNum 1, JNum 2, JNum 3]), (''answers'', JArr [JNum 1, JNum 2, JNum 1])]"

definition example_body :: json where
  "example_body = JObj [(''details'', example_details)]"

definition example_env :: env where
  "example_env = \<lparr>uuid4 = ''P1'', commit_error = None, save_error = None, remove_error = None\<rparr>"

definition example_env_failing :: env where
  "example_env_failing = example_env\<lparr>commit_error := Some ''database is locked''\<rparr>"

definition example_upload :: upload_file where
  "example_upload =
     \<lparr>filename = Some ''sheet.png'', content_type = Some ''image/png'', content = ''pixels''\<rparr>"

definition example_generator :: generator where
  "example_generator = (\<lambda>i. if i = 2 then 3758096384 else 1610612736)"

definition example_state_1 :: state where
  "example_state_1 =
     snd (POST_questions (\<lambda>t. None) example_body example_env (initial example_generator))"

definition example_state_2 :: state where
  "example_state_2 =
     snd (the (POST_evaluate ''R1'' ''P1'' example_upload example_env example_state_1))"

definition example_state_3 :: state where
  "example_state_3 =
     snd (the (POST_evaluate ''R2'' ''P1'' example_upload example_env example_state_2))"

text \<open>A second question paper, whose \<open>questions\<close> is a number.\<close>

definition example_unsized_body :: json where
  "example_unsized_body =
     JObj [(''details'', JObj [(''questions'', JNum 5), (''answers'', JArr [JNum 1])])]"

definition example_state_4 :: state where
  "example_state_4 =
     snd (POST_questions (\<lambda>t. None) example_unsized_body (example_env\<lparr>uuid4 := ''P2''\<rparr>)
            example_state_1)"

section \<open>Properties\<close>

lemma first_filter_None: "first (filter P xs) = None \<longleftrightarrow> (\<forall>x \<in> set xs. \<not> P x)"
  by (induction xs) (auto simp: first_def)

lemma first_filter_Some: "first (filter P xs) = Some x \<Longrightarrow> x \<in> set xs \<and> P x"
  by (induction xs) (auto simp: first_def split: if_splits)

lemma fold_max_ge: "(a::int) \<le> fold max xs a"
  by (induction xs arbitrary: a) (auto intro: order_trans [OF max.cobounded2])

lemma fold_max_mem: "x \<in> set xs \<Longrightarrow> (x::int) \<le> fold max xs a"
  by (induction xs arbitrary: a) (auto intro: order_trans [OF max.cobounded1 fold_max_ge])

lemma next_result_id_fresh: "r \<in> set rs \<Longrightarrow> result_id r < next_result_id rs"
  using fold_max_mem [of "result_id r" "map result_id rs" 0] by (simp add: next_result_id_def)

lemma commit_Inr: "commit e s = Inr s' \<Longrightarrow>
    s' = s\<lparr>durable := txn s\<rparr> \<and> commit_error e = None \<and> distinct (map qp_id (question_papers (txn s)))"
  by (auto simp: commit_def split: option.splits if_splits)

lemma commit_error_Inl: "commit_error e = Some m \<Longrightarrow> commit e s = Inl (SQLAlchemyError m)"
  by (simp add: commit_def)

lemma save_upload_file_db [simp]:
  "durable (snd (save_upload_file u e s)) = durable s"
  "txn (snd (save_upload_file u e s)) = txn s"
  by (auto simp: save_upload_file_def Let_def split: prod.splits option.splits save_failure.splits)

lemma cleanup_file_db [simp]:
  "durable (cleanup_file f e s) = durable s"
  "txn (cleanup_file f e s) = txn s"
  "rng (cleanup_file f e s) = rng s"
  by (auto simp: cleanup_file_def split: option.splits)

lemma evaluate_omr_body_Some:
  assumes "evaluate_omr_body pid s = Some (q, s')"
  shows "durable s' = durable s" and "txn s' = txn s"
    and "uploads s' = uploads s" and "stdout s' = stdout s"
    and "q = Inr m \<Longrightarrow> pid \<in> set (map qp_id (question_papers (txn s)))"
  using assms
  by (auto simp: evaluate_omr_body_def split: option.splits sum.splits prod.splits
      dest!: first_filter_Some)

lemma evaluate_omr_Some:
  assumes "evaluate_omr f pid e s = Some (q, s')"
  shows "\<exists>q0 s0. evaluate_omr_body pid s = Some (q0, s0) \<and> q = evaluate_omr_except q0 \<and>
           s' = cleanup_file f e s0"
  using assms by (auto simp: evaluate_omr_def split: option.splits)

lemma evaluate_omr_except_Inr: "evaluate_omr_except q = Inr m \<longleftrightarrow> q = Inr m"
  by (cases q rule: evaluate_omr_except.cases) auto

lemma evaluate_except_durable [simp]: "durable (snd (evaluate_except x s)) = durable s"
  by (cases x) (simp_all add: rollback_def)

lemma store_ok_create:
  assumes "store_ok st" "distinct (map qp_id (question_papers st @ [p]))"
  shows "store_ok (st\<lparr>question_papers := question_papers st @ [p]\<rparr>)"
  using assms by (auto simp: store_ok_def)

lemma store_ok_update:
  assumes "store_ok st"
  shows "store_ok (st\<lparr>question_papers :=
           map (\<lambda>p. if qp_id p = pid then p\<lparr>details := d\<rparr> else p) (question_papers st)\<rparr>)"
proof -
  have h1: "qp_id \<circ> (\<lambda>p. if qp_id p = pid then p\<lparr>details := d\<rparr> else p) = qp_id"
    by (rule ext) simp
  have h2: "(\<lambda>p. qp_id (if qp_id p = pid then p\<lparr>details := d\<rparr> else p)) = qp_id"
    by (rule ext) simp
  show ?thesis using assms by (simp add: store_ok_def h1 h2)
qed

lemma store_ok_delete:
  assumes "store_ok st"
  shows "store_ok (st\<lparr>question_papers := filter (\<lambda>p. qp_id p \<noteq> pid) (question_papers st),
                          results := filter (\<lambda>r. question_paper_id r \<noteq> pid) (results st)\<rparr>)"
  using assms by (auto simp: store_ok_def distinct_map_filter)

lemma store_ok_add_result:
  assumes "store_ok st" "pid \<in> set (map qp_id (question_papers st))"
  shows "store_ok (st\<lparr>results := results st @
           [\<lparr>result_id = next_result_id (results st), roll_number = roll,
             question_paper_id = pid, marks = m\<rparr>]\<rparr>)"
  using assms next_result_id_fresh [of _ "results st"] by (fastforce simp: store_ok_def)

lemma POST_questions_store_ok:
  "store_ok (durable s) \<Longrightarrow> store_ok (durable (snd (POST_questions jl body e s)))"
  by (auto simp: POST_questions_def respond_def create_question_paper_def Let_def
        session_open_def session_close_def rollback_def
      split: sum.splits dest!: commit_Inr intro!: store_ok_create)

lemma PUT_question_store_ok:
  "store_ok (durable s) \<Longrightarrow> store_ok (durable (snd (PUT_question jl pid body e s)))"
  by (auto simp: PUT_question_def respond_def update_question_paper_def Let_def
        session_open_def session_close_def rollback_def
      split: sum.splits option.splits dest!: commit_Inr intro!: store_ok_update)

lemma DELETE_question_store_ok:
  "store_ok (durable s) \<Longrightarrow> store_ok (durable (snd (DELETE_question pid e s)))"
  by (auto simp: DELETE_question_def respond_def delete_question_paper_def Let_def
        session_open_def session_close_def rollback_def
      split: sum.splits option.splits dest!: commit_Inr first_filter_Some intro!: store_ok_delete)


lemma save_upload_file_eq:
  "save_upload_file u e s = (r, s1) \<Longrightarrow> durable s1 = durable s \<and> txn s1 = txn s"
  using save_upload_file_db [of u e s] by simp

lemma evaluate_omr_eq:
  assumes "evaluate_omr f pid e s = Some (r, s1)"
  shows "durable s1 = durable s \<and> txn s1 = txn s \<and>
     (\<forall>m. r = Inr m \<longrightarrow> pid \<in> set (map qp_id (question_papers (txn s))))"
proof -
  from evaluate_omr_Some [OF assms] obtain q0 s0 where
    b: "evaluate_omr_body pid s = Some (q0, s0)" and q: "r = evaluate_omr_except q0"
    and s: "s1 = cleanup_file f e s0"
    by blast
  show ?thesis
    using evaluate_omr_body_Some [OF b] q s by (simp add: evaluate_omr_except_Inr)
qed

lemma evaluate_omr_sheet_durable:
  assumes "evaluate_omr_sheet roll pid u e s = Some (q, s')"
  shows "durable s' = durable s \<or>
   (pid \<in> set (map qp_id (question_papers (txn s))) \<and>
    durable s' =
      (txn s)\<lparr>results := results (txn s) @
        [\<lparr>result_id = next_result_id (results (txn s)), roll_number = roll,
          question_paper_id = pid,
          marks = (case q of Inr r \<Rightarrow> marks r | Inl x \<Rightarrow> 0)\<rparr>]\<rparr>)"
  using assms
  by (auto simp: evaluate_omr_sheet_def Let_def prod_eq_iff
      split: option.splits prod.splits sum.splits if_splits
      dest!: save_upload_file_eq evaluate_omr_eq commit_Inr)

lemma POST_evaluate_Some:
  assumes "POST_evaluate roll pid u e s = Some (resp, s')"
  shows "\<exists>q b. evaluate_omr_sheet roll pid u e (session_open s) = Some (q, b) \<and>
           resp = (case q of Inl x \<Rightarrow> exception_handler x | Inr v \<Rightarrow> Response 200 v) \<and>
           s' = session_close b"
  using assms by (auto simp: POST_evaluate_def respond_def split: sum.splits)

lemma POST_evaluate_store_ok:
  assumes "store_ok (durable s)" and "POST_evaluate roll pid u e s = Some (resp, s')"
  shows "store_ok (durable s')"
proof -
  from POST_evaluate_Some [OF assms(2)] obtain q b where
    r: "evaluate_omr_sheet roll pid u e (session_open s) = Some (q, b)"
    and s': "s' = session_close b"
    by blast
  have d: "durable s' = durable b"
    using s' by (simp add: session_close_def)
  have t: "txn (session_open s) = durable s" "durable (session_open s) = durable s"
    by (simp_all add: session_open_def)
  show ?thesis
    using evaluate_omr_sheet_durable [OF r] assms(1)
    unfolding d t by (elim disjE conjE) (simp_all add: store_ok_add_result)
qed

lemma reachable_store_ok: "reachable s \<Longrightarrow> store_ok (durable s)"
proof (induction rule: reachable.induct)
  case (startup g)
  show ?case by (simp add: initial_def store_ok_def)
next
  case (post_questions s json_loads body e)
  from post_questions.IH show ?case by (rule POST_questions_store_ok)
next
  case (put_question s json_loads pid body e)
  from put_question.IH show ?case by (rule PUT_question_store_ok)
next
  case (delete_question s pid e)
  from delete_question.IH show ?case by (rule DELETE_question_store_ok)
next
  case (post_evaluate s roll pid omr_sheet e resp s')
  from post_evaluate.IH post_evaluate.hyps(2) show ?case by (rule POST_evaluate_store_ok)
qed (simp_all add: GET_questions_def GET_question_def GET_results_def GET_result_def
      respond_def session_close_def session_open_def split: sum.splits prod.splits)

lemma map_option_fst_Some: "map_option fst x = Some a \<Longrightarrow> x = Some (a, snd (the x))"
  by (cases x) auto

lemma example_run_1:
  "POST_evaluate ''R1'' ''P1'' example_upload example_env example_state_1 =
     Some (Response 200 \<lparr>result_id = 1, roll_number = ''R1'', question_paper_id = ''P1'', marks = 3\<rparr>,
           example_state_2)"
proof -
  have "map_option fst (POST_evaluate ''R1'' ''P1'' example_upload example_env example_state_1) =
     Some (Response 200 \<lparr>result_id = 1, roll_number = ''R1'', question_paper_id = ''P1'', marks = 3\<rparr>)"
    by code_simp
  from map_option_fst_Some [OF this] show ?thesis
    by (simp add: example_state_2_def)
qed

lemma example_run_2:
  "POST_evaluate ''R2'' ''P1'' example_upload example_env example_state_2 =
     Some (Response 200 \<lparr>result_id = 2, roll_number = ''R2'', question_paper_id = ''P1'', marks = 3\<rparr>,
           example_state_3)"
proof -
  have "map_option fst (POST_evaluate ''R2'' ''P1'' example_upload example_env example_state_2) =
     Some (Response 200 \<lparr>result_id = 2, roll_number = ''R2'', question_paper_id = ''P1'', marks = 3\<rparr>)"
    by code_simp
  from map_option_fst_Some [OF this] show ?thesis
    by (simp add: example_state_3_def)
qed

lemma reachable_example_state_1: "reachable example_state_1"
  unfolding example_state_1_def by (intro reachable.post_questions reachable.startup)

lemma reachable_example_state_2: "reachable example_state_2"
  using reachable_example_state_1 example_run_1 by (rule reachable.post_evaluate)

lemma reachable_example_state_3: "reachable example_state_3"
  using reachable_example_state_2 example_run_2 by (rule reachable.post_evaluate)

lemma DELETE_question_Response:
  assumes "DELETE_question pid e s = (Response c msg, s')"
  shows "durable s' = (durable s)\<lparr>
           question_papers := filter (\<lambda>p. qp_id p \<noteq> pid) (question_papers (durable s)),
           results := filter (\<lambda>r. question_paper_id r \<noteq> pid) (results (durable s))\<rparr>"
  using assms
  by (auto simp: DELETE_question_def respond_def delete_question_paper_def Let_def
        session_open_def session_close_def not_found_paper_def
      split: sum.splits option.splits dest!: commit_Inr first_filter_Some)

lemma GET_result_not_found:
  assumes "\<forall>r \<in> set (results (durable s)). result_id r \<noteq> rid"
  shows "fst (GET_result rid s) =
           ErrorResponse 404 (''Result with id '' @ str_int rid @ '' not found'')"
proof -
  have "first (filter (\<lambda>r. result_id r = rid) (results (durable s))) = None"
    using assms by (subst first_filter_None) simp
  then show ?thesis
    by (simp add: GET_result_def respond_def get_result_def session_open_def)
qed

text \<open>
  Claim C1. In every state the service can reach, each result references a question paper
  of the table. When \<open>DELETE /questions/{id}\<close> answers 200, every result that referenced
  the paper is gone: fetching any of their ids answers 404, no remaining result references
  the paper, and the paper itself is gone.
\<close>

theorem delete_question_paper_cascade:
  assumes "reachable s"
  shows "(\<forall>r \<in> set (results (durable s)).
            question_paper_id r \<in> set (map qp_id (question_papers (durable s)))) \<and>
         (DELETE_question pid e s = (Response 200 msg, s') \<longrightarrow>
            (\<forall>r \<in> set (results (durable s)). question_paper_id r = pid \<longrightarrow>
               fst (GET_result (result_id r) s') =
                 ErrorResponse 404 (''Result with id '' @ str_int (result_id r) @ '' not found'')) \<and>
            (\<forall>r \<in> set (results (durable s')). question_paper_id r \<noteq> pid) \<and>
            pid \<notin> set (map qp_id (question_papers (durable s'))))"
proof -
  have ok: "store_ok (durable s)"
    using assms by (rule reachable_store_ok)
  have inv: "\<forall>r \<in> set (results (durable s)).
               question_paper_id r \<in> set (map qp_id (question_papers (durable s)))"
    using ok by (simp add: store_ok_def)
  have del: "(\<forall>r \<in> set (results (durable s)). question_paper_id r = pid \<longrightarrow>
               fst (GET_result (result_id r) s') =
                 ErrorResponse 404 (''Result with id '' @ str_int (result_id r) @ '' not found'')) \<and>
            (\<forall>r \<in> set (results (durable s')). question_paper_id r \<noteq> pid) \<and>
            pid \<notin> set (map qp_id (question_papers (durable s')))"
    if d: "DELETE_question pid e s = (Response 200 msg, s')"
  proof -
    note eq = DELETE_question_Response [OF d]
    have dist: "distinct (map result_id (results (durable s)))"
      using ok by (simp add: store_ok_def)
    have gone: "fst (GET_result (result_id r) s') =
                  ErrorResponse 404 (''Result with id '' @ str_int (result_id r) @ '' not found'')"
      if r: "r \<in> set (results (durable s))" "question_paper_id r = pid" for r
    proof (rule GET_result_not_found, rule ballI)
      fix r' assume "r' \<in> set (results (durable s'))"
      then have r': "r' \<in> set (results (durable s))" "question_paper_id r' \<noteq> pid"
        by (simp_all add: eq)
      then have "r' \<noteq> r" using r by auto
      then show "result_id r' \<noteq> result_id r"
        using dist r' r by (auto simp: distinct_map inj_on_def)
    qed
    show ?thesis using gone by (auto simp: eq)
  qed
  show ?thesis using inv del by blast
qed



theorem delete_question_paper_cascade_witness:
  "reachable example_state_2 \<and>
   fst (DELETE_question ''P1'' example_env example_state_2) =
     Response 200 ''Question paper P1 deleted successfully'' \<and>
   results (durable example_state_2) =
     [\<lparr>result_id = 1, roll_number = ''R1'', question_paper_id = ''P1'', marks = 3\<rparr>] \<and>
   fst (GET_result 1 (snd (DELETE_question ''P1'' example_env example_state_2))) =
     ErrorResponse 404 ''Result with id 1 not found''"
proof -
  have r: "reachable example_state_2"
    by (rule reachable_example_state_2)
  have rs: "results (durable example_state_2) =
     [\<lparr>result_id = 1, roll_number = ''R1'', question_paper_id = ''P1'', marks = 3\<rparr>]"
    by code_simp
  have f: "fst (DELETE_question ''P1'' example_env example_state_2) =
     Response 200 ''Question paper P1 deleted successfully''"
    by code_simp
  have d: "DELETE_question ''P1'' example_env example_state_2 =
     (Response 200 ''Question paper P1 deleted successfully'',
      snd (DELETE_question ''P1'' example_env example_state_2))"
    using f by (simp add: prod_eq_iff)
  have mem: "\<lparr>result_id = 1, roll_number = ''R1'', question_paper_id = ''P1'', marks = 3\<rparr>
               \<in> set (results (durable example_state_2))"
    by (simp add: rs)
  note post = delete_question_paper_cascade [OF r, THEN conjunct2, THEN mp, OF d]
  have "fst (GET_result 1 (snd (DELETE_question ''P1'' example_env example_state_2))) =
          ErrorResponse 404 ''Result with id 1 not found''"
    using post [THEN conjunct1, THEN bspec, OF mem] by (simp add: str_int_def str_nat.simps)
  then show ?thesis using r f rs by simp
qed

text \<open>
  Claim C6. An upload whose declared content type does not start with \<open>image/\<close> is
  answered with status 400; the state after the request is the state before it (with the
  session closed), so no file was saved, no result stored and the generator not touched.
\<close>

theorem non_image_rejected:
  assumes "content_type omr_sheet = Some ct" and "\<not> startswith ct ''image/''"
  shows "POST_evaluate roll pid omr_sheet e s =
           Some (ErrorResponse 400 ''File must be an image'', s\<lparr>txn := durable s\<rparr>)"
  using assms
  by (simp add: POST_evaluate_def respond_def evaluate_omr_sheet_def session_open_def
      session_close_def)

theorem non_image_rejected_witness:
  "content_type (example_upload\<lparr>content_type := Some ''application/pdf''\<rparr>) = Some ''application/pdf'' \<and>
   \<not> startswith ''application/pdf'' ''image/'' \<and>
   map_option fst (POST_evaluate ''R1'' ''P1'' (example_upload\<lparr>content_type := Some ''application/pdf''\<rparr>)
          example_env example_state_1) = Some (ErrorResponse 400 ''File must be an image'') \<and>
   map_option (uploads \<circ> snd) (POST_evaluate ''R1'' ''P1''
          (example_upload\<lparr>content_type := Some ''application/pdf''\<rparr>)
          example_env example_state_1) = Some (uploads example_state_1) \<and>
   map_option (durable \<circ> snd) (POST_evaluate ''R1'' ''P1''
          (example_upload\<lparr>content_type := Some ''application/pdf''\<rparr>)
          example_env example_state_1) = Some (durable example_state_1)"
proof -
  have c: "content_type (example_upload\<lparr>content_type := Some ''application/pdf''\<rparr>) = Some ''application/pdf''"
    by simp
  have n: "\<not> startswith ''application/pdf'' ''image/''"
    by (simp add: startswith_def)
  show ?thesis
    using non_image_rejected [OF c n, of "''R1''" "''P1''" example_env example_state_1] c n
    by simp
qed

lemma offset_drop: "sqlite_integer k \<Longrightarrow> offset k xs = Inr (drop (nat k) xs)"
  by (simp add: offset_def)

lemma limit_take: "sqlite_integer n \<Longrightarrow> 0 \<le> n \<Longrightarrow> limit n xs = Inr (take (nat n) xs)"
  by (simp add: limit_def)

lemma get_results_filter:
  "get_results roll pid skip lim s =
     (case offset (case skip of None \<Rightarrow> 0 | Some k \<Rightarrow> k)
         (filter (\<lambda>r. (truthy roll \<longrightarrow> Some (roll_number r) = roll) \<and>
                      (truthy pid \<longrightarrow> Some (question_paper_id r) = pid))
            (results (txn s))) of
        Inl x \<Rightarrow> Inl x
      | Inr rows \<Rightarrow> limit (case lim of None \<Rightarrow> 10 | Some n \<Rightarrow> n) rows)"
  by (simp add: get_results_def Let_def conj_commute)

text \<open>
  Claim C8, as amended. For a limit \<open>n\<close> that is not negative, and \<open>k\<close> and \<open>n\<close> within
  the range of a 64-bit integer with sign, the page of question papers is the table with
  the first \<open>k\<close> rows dropped and cut to \<open>n\<close> rows; the page of results is the same cut of
  the results that the request selects; a page has at most \<open>n\<close> rows; omitted parameters
  stand for \<open>skip = 0\<close> and \<open>limit = 10\<close>.
\<close>

theorem list_pagination:
  assumes "0 \<le> n" and "n \<le> 9223372036854775807"
    and "- 9223372036854775808 \<le> k" and "k \<le> 9223372036854775807"
  shows "fst (GET_questions (Some k) (Some n) s) =
           Response 200 (take (nat n) (drop (nat k) (question_papers (durable s)))) \<and>
         fst (GET_results roll pid (Some k) (Some n) s) =
           Response 200 (take (nat n) (drop (nat k)
             (filter (\<lambda>r. (truthy roll \<longrightarrow> Some (roll_number r) = roll) \<and>
                          (truthy pid \<longrightarrow> Some (question_paper_id r) = pid))
                (results (durable s))))) \<and>
         (\<forall>page. fst (GET_questions (Some k) (Some n) s) = Response 200 page \<longrightarrow>
            int (length page) \<le> n) \<and>
         (\<forall>page. fst (GET_results roll pid (Some k) (Some n) s) = Response 200 page \<longrightarrow>
            int (length page) \<le> n) \<and>
         GET_questions None None s = GET_questions (Some 0) (Some 10) s \<and>
         GET_results roll pid None None s = GET_results roll pid (Some 0) (Some 10) s"
proof -
  have rk: "sqlite_integer k" and rn: "sqlite_integer n"
    using assms by (simp_all add: sqlite_integer_def)
  have q: "get_question_papers (Some k) (Some n) (session_open s) =
             Inr (take (nat n) (drop (nat k) (question_papers (durable s))))"
    using assms(1) rk rn
    by (simp add: get_question_papers_def offset_drop limit_take session_open_def)
  have r: "get_results roll pid (Some k) (Some n) (session_open s) =
             Inr (take (nat n) (drop (nat k)
               (filter (\<lambda>r. (truthy roll \<longrightarrow> Some (roll_number r) = roll) \<and>
                            (truthy pid \<longrightarrow> Some (question_paper_id r) = pid))
                  (results (durable s)))))"
    using assms(1) rk rn
    by (simp add: get_results_filter offset_drop limit_take session_open_def)
  have eq: "fst (GET_questions (Some k) (Some n) s) =
              Response 200 (take (nat n) (drop (nat k) (question_papers (durable s))))"
    by (simp add: GET_questions_def respond_def q)
  have er: "fst (GET_results roll pid (Some k) (Some n) s) =
              Response 200 (take (nat n) (drop (nat k)
                (filter (\<lambda>r. (truthy roll \<longrightarrow> Some (roll_number r) = roll) \<and>
                             (truthy pid \<longrightarrow> Some (question_paper_id r) = pid))
                   (results (durable s)))))"
    by (simp add: GET_results_def respond_def r)
  have lq: "\<forall>page. fst (GET_questions (Some k) (Some n) s) = Response 200 page \<longrightarrow>
              int (length page) \<le> n"
    unfolding eq using assms(1) by auto
  have lr: "\<forall>page. fst (GET_results roll pid (Some k) (Some n) s) = Response 200 page \<longrightarrow>
              int (length page) \<le> n"
    unfolding er using assms(1) by auto
  have dq: "GET_questions None None s = GET_questions (Some 0) (Some 10) s"
    by (simp add: GET_questions_def get_question_papers_def split: sum.splits)
  have dr: "GET_results roll pid None None s = GET_results roll pid (Some 0) (Some 10) s"
    by (simp add: GET_results_def get_results_def Let_def split: sum.splits)
  show ?thesis
    using eq er lq lr dq dr by simp
qed

theorem list_pagination_witness:
  "(0::int) \<le> 1 \<and> (1::int) \<le> 9223372036854775807 \<and>
   (- 9223372036854775808::int) \<le> 1 \<and> (1::int) \<le> 9223372036854775807 \<and>
   fst (GET_results (Some ''R2'') None (Some 0) (Some 1) example_state_3) =
     Response 200 [\<lparr>result_id = 2, roll_number = ''R2'', question_paper_id = ''P1'', marks = 3\<rparr>] \<and>
   fst (GET_results None None (Some 1) (Some 1) example_state_3) =
     Response 200 [\<lparr>result_id = 2, roll_number = ''R2'', question_paper_id = ''P1'', marks = 3\<rparr>] \<and>
   fst (GET_results None None (Some 0) (Some 1) example_state_3) =
     Response 200 [\<lparr>result_id = 1, roll_number = ''R1'', question_paper_id = ''P1'', marks = 3\<rparr>] \<and>
   fst (GET_questions (Some 0) (Some 1) example_state_3) =
     Response 200 [\<lparr>qp_id = ''P1'', details = example_details\<rparr>] \<and>
   int (length [\<lparr>qp_id = ''P1'', details = example_details\<rparr>]) \<le> 1"
proof -
  have rs: "results (durable example_state_3) =
      [\<lparr>result_id = 1, roll_number = ''R1'', question_paper_id = ''P1'', marks = 3\<rparr>,
       \<lparr>result_id = 2, roll_number = ''R2'', question_paper_id = ''P1'', marks = 3\<rparr>]"
    by code_simp
  have qs: "question_papers (durable example_state_3) = [\<lparr>qp_id = ''P1'', details = example_details\<rparr>]"
    by code_simp
  have n: "(0::int) \<le> 1" "(1::int) \<le> 9223372036854775807"
    "(- 9223372036854775808::int) \<le> 1" "(- 9223372036854775808::int) \<le> 0"
    "(0::int) \<le> 9223372036854775807"
    by simp_all
  show ?thesis
    using list_pagination [OF n(1) n(2) n(4) n(5), where roll = "Some ''R2''" and pid = None
        and s = example_state_3]
      list_pagination [OF n(1) n(2) n(3) n(2), where roll = None and pid = None
        and s = example_state_3]
      list_pagination [OF n(1) n(2) n(4) n(5), where roll = None and pid = None
        and s = example_state_3]
    by (simp add: rs qs truthy_def)
qed

text \<open>
  The claim as stated fails on a negative limit, which SQLite reads as no limit: with
  \<open>limit = -1\<close> the page holds the one stored question paper, more than \<open>-1\<close> rows. It
  fails too on a number that does not fit 64 bits: a limit or a skip of \<open>2\<^sup>6\<^sup>3\<close> is
  answered with status 500 and no page.
\<close>

theorem list_pagination_counterexample:
  "fst (GET_questions (Some 0) (Some (- 1)) example_state_1) =
     Response 200 [\<lparr>qp_id = ''P1'', details = example_details\<rparr>] \<and>
   \<not> int (length [\<lparr>qp_id = ''P1'', details = example_details\<rparr>]) \<le> - 1 \<and>
   fst (GET_questions (Some 0) (Some 9223372036854775808) example_state_1) =
     ErrorResponse 500 ''Internal server error'' \<and>
   fst (GET_results None None (Some 9223372036854775808) (Some 10) example_state_2) =
     ErrorResponse 500 ''Internal server error''"
  by code_simp

lemma validate_details_JObj:
  "validate_details jl (JObj kvs) =
     (if ''questions'' \<notin> set (map fst kvs)
      then Inl (ValueError ''Missing required field: questions'')
      else if ''answers'' \<notin> set (map fst kvs)
      then Inl (ValueError ''Missing required field: answers'')
      else Inr (JObj kvs))"
  by (simp add: validate_details_def)

lemma QuestionPaperCreate_cases:
  "(\<exists>m. QuestionPaperCreate jl body = Inl (RequestValidationError m)) \<or>
   (\<exists>bkvs kvs. body = JObj bkvs \<and> map_of bkvs ''details'' = Some (JObj kvs) \<and>
      ''questions'' \<in> set (map fst kvs) \<and> ''answers'' \<in> set (map fst kvs) \<and>
      QuestionPaperCreate jl body = Inr (JObj kvs))"
  by (auto simp: QuestionPaperCreate_def validate_details_JObj split: json.splits option.splits)

text \<open>
  Claim C3, as amended. A create or update request whose details document (parsed from
  text when it is given as serialized JSON) is not a mapping with both keys \<open>questions\<close>
  and \<open>answers\<close> fails with a validation error that is answered with status 422, and
  the state is left as it was, so no question paper is created or modified.
\<close>

theorem invalid_details_rejected:
  assumes "\<not> (\<exists>bkvs d kvs. body = JObj bkvs \<and> map_of bkvs ''details'' = Some d \<and>
                 details_document jl d = Some (JObj kvs) \<and>
                 ''questions'' \<in> set (map fst kvs) \<and> ''answers'' \<in> set (map fst kvs))"
  shows "\<exists>m. POST_questions jl body e s = (ErrorResponse 422 m, s) \<and>
             PUT_question jl pid body e s = (ErrorResponse 422 m, s)"
proof -
  have "\<not> (\<exists>bkvs kvs. body = JObj bkvs \<and> map_of bkvs ''details'' = Some (JObj kvs) \<and>
                 ''questions'' \<in> set (map fst kvs) \<and> ''answers'' \<in> set (map fst kvs))"
  proof
    assume "\<exists>bkvs kvs. body = JObj bkvs \<and> map_of bkvs ''details'' = Some (JObj kvs) \<and>
                 ''questions'' \<in> set (map fst kvs) \<and> ''answers'' \<in> set (map fst kvs)"
    then obtain bkvs kvs where "body = JObj bkvs" "map_of bkvs ''details'' = Some (JObj kvs)"
      "details_document jl (JObj kvs) = Some (JObj kvs)"
      "''questions'' \<in> set (map fst kvs)" "''answers'' \<in> set (map fst kvs)"
      by (auto simp: details_document_def)
    with assms show False by blast
  qed
  with QuestionPaperCreate_cases [of jl body]
  obtain m where "QuestionPaperCreate jl body = Inl (RequestValidationError m)"
    by blast
  then have "POST_questions jl body e s = (ErrorResponse 422 m, s) \<and>
             PUT_question jl pid body e s = (ErrorResponse 422 m, s)"
    by (simp add: POST_questions_def PUT_question_def)
  then show ?thesis ..
qed

theorem invalid_details_rejected_witness:
  "\<not> (\<exists>bkvs d kvs. JObj [(''details'', JObj [(''questions'', JArr [JNum 1])])] = JObj bkvs \<and>
        map_of bkvs ''details'' = Some d \<and> details_document (\<lambda>t. None) d = Some (JObj kvs) \<and>
        ''questions'' \<in> set (map fst kvs) \<and> ''answers'' \<in> set (map fst kvs)) \<and>
   (\<exists>m. POST_questions (\<lambda>t. None) (JObj [(''details'', JObj [(''questions'', JArr [JNum 1])])])
           example_env example_state_1 = (ErrorResponse 422 m, example_state_1) \<and>
        PUT_question (\<lambda>t. None) ''P1'' (JObj [(''details'', JObj [(''questions'', JArr [JNum 1])])])
           example_env example_state_1 = (ErrorResponse 422 m, example_state_1))"
proof -
  have h: "\<not> (\<exists>bkvs d kvs. JObj [(''details'', JObj [(''questions'', JArr [JNum 1])])] = JObj bkvs \<and>
        map_of bkvs ''details'' = Some d \<and> details_document (\<lambda>t. None) d = Some (JObj kvs) \<and>
        ''questions'' \<in> set (map fst kvs) \<and> ''answers'' \<in> set (map fst kvs))"
    by (auto simp: details_document_def)
  show ?thesis
    using invalid_details_rejected [OF h, where pid = "''P1''"
        and e = example_env and s = example_state_1] h
    by blast
qed

text \<open>
  The claim as stated fails on the status: a body whose \<open>details\<close> lacks \<open>answers\<close> is
  answered with 422, not 400.
\<close>

theorem invalid_details_status_counterexample:
  "fst (POST_questions (\<lambda>t. None) (JObj [(''details'', JObj [(''questions'', JArr [JNum 1])])])
          example_env (initial example_generator)) =
     ErrorResponse 422 ''Value error, Missing required field: answers'' \<and>
   status_of (fst (POST_questions (\<lambda>t. None)
          (JObj [(''details'', JObj [(''questions'', JArr [JNum 1])])])
          example_env (initial example_generator))) \<noteq> 400"
  by code_simp

lemma evaluate_omr_body_unknown:
  assumes "pid \<notin> set (map qp_id (question_papers (txn s)))"
  shows "evaluate_omr_body pid s = Some (Inl (not_found_paper pid), s)"
proof -
  have "first (filter (\<lambda>p. qp_id p = pid) (question_papers (txn s))) = None"
    using assms by (subst first_filter_None) auto
  then show ?thesis by (simp add: evaluate_omr_body_def)
qed

lemma evaluate_omr_unknown:
  assumes "pid \<notin> set (map qp_id (question_papers (txn s)))"
  shows "evaluate_omr f pid e s = Some (Inl (not_found_paper pid), cleanup_file f e s)"
  by (simp add: evaluate_omr_def evaluate_omr_body_unknown [OF assms] not_found_paper_def)

lemma save_upload_file_ok:
  assumes "save_error e = None"
  shows "\<exists>f s1. save_upload_file u e s = (Inr f, s1) \<and> txn s1 = txn s \<and> durable s1 = durable s"
  using assms by (simp add: save_upload_file_def Let_def case_prod_beta)

lemma evaluate_omr_sheet_unknown:
  assumes "pid \<notin> set (map qp_id (question_papers (txn s)))"
  shows "\<exists>q b. evaluate_omr_sheet roll pid u e s = Some (q, b)"
proof (cases "content_type u")
  case None
  then show ?thesis by (simp add: evaluate_omr_sheet_def)
next
  case (Some ct)
  show ?thesis
  proof (cases "startswith ct ''image/''")
    case False
    then show ?thesis using Some by (simp add: evaluate_omr_sheet_def)
  next
    case True
    obtain r1 a where sv: "save_upload_file u e s = (r1, a)"
      by (cases "save_upload_file u e s")
    have ta: "pid \<notin> set (map qp_id (question_papers (txn a)))"
      using save_upload_file_db(2) [of u e s] sv assms by simp
    show ?thesis
    proof (cases r1)
      case (Inl x)
      then show ?thesis
        using Some True sv by (cases "evaluate_except x a") (simp add: evaluate_omr_sheet_def)
    next
      case (Inr f)
      then show ?thesis
        using Some True sv evaluate_omr_unknown [OF ta, of f e]
        by (cases "evaluate_except (not_found_paper pid) (cleanup_file f e a)")
          (simp add: evaluate_omr_sheet_def)
    qed
  qed
qed

lemma POST_evaluate_durable_unknown:
  assumes "pid \<notin> set (map qp_id (question_papers (durable s)))"
  shows "\<exists>resp s'. POST_evaluate roll pid u e s = Some (resp, s') \<and> durable s' = durable s"
proof -
  have a: "pid \<notin> set (map qp_id (question_papers (txn (session_open s))))"
    using assms by (simp add: session_open_def)
  from evaluate_omr_sheet_unknown [OF a, of roll u e] obtain q b where
    r: "evaluate_omr_sheet roll pid u e (session_open s) = Some (q, b)"
    by blast
  have d: "durable b = durable s"
    using evaluate_omr_sheet_durable [OF r] a by (auto simp: session_open_def)
  obtain resp s' where p: "respond 200 (q, b) = (resp, s')"
    by (cases "respond 200 (q, b)")
  then have "durable s' = durable b"
    by (auto simp: respond_def session_close_def split: sum.splits)
  then show ?thesis
    using r p d by (simp add: POST_evaluate_def)
qed

text \<open>
  Claim C5, as amended. An evaluation request that names no stored question paper is
  answered and creates no result, whatever else it carries. When its upload passes the
  content-type check and is saved, it is answered with status 404 and a detail naming the
  missing identifier.
\<close>

theorem unknown_paper_not_found:
  assumes "pid \<notin> set (map qp_id (question_papers (durable s)))"
  shows "(\<exists>resp s'. POST_evaluate roll pid omr_sheet e s = Some (resp, s') \<and>
            durable s' = durable s) \<and>
         (\<forall>ct. content_type omr_sheet = Some ct \<and> startswith ct ''image/'' \<and> save_error e = None \<longrightarrow>
            map_option fst (POST_evaluate roll pid omr_sheet e s) =
              Some (ErrorResponse 404 (''Question paper with id '' @ pid @ '' not found'')))"
proof -
  have a: "pid \<notin> set (map qp_id (question_papers (txn (session_open s))))"
    using assms by (simp add: session_open_def)
  have r: "map_option fst (POST_evaluate roll pid omr_sheet e s) =
              Some (ErrorResponse 404 (''Question paper with id '' @ pid @ '' not found''))"
    if c: "content_type omr_sheet = Some ct" "startswith ct ''image/''" "save_error e = None" for ct
  proof -
    from save_upload_file_ok [OF c(3), of omr_sheet "session_open s"]
    obtain f s1 where sv: "save_upload_file omr_sheet e (session_open s) = (Inr f, s1)"
      and t: "txn s1 = txn (session_open s)"
      by blast
    have a1: "pid \<notin> set (map qp_id (question_papers (txn s1)))"
      using a t by simp
    show ?thesis
      by (simp add: POST_evaluate_def respond_def evaluate_omr_sheet_def c sv
          evaluate_omr_unknown [OF a1] not_found_paper_def)
  qed
  show ?thesis
    using POST_evaluate_durable_unknown [OF assms] r by blast
qed

theorem unknown_paper_not_found_witness:
  "''P7'' \<notin> set (map qp_id (question_papers (durable example_state_1))) \<and>
   content_type example_upload = Some ''image/png'' \<and> startswith ''image/png'' ''image/'' \<and>
   save_error example_env = None \<and>
   (\<exists>resp s'. POST_evaluate ''R1'' ''P7'' example_upload example_env example_state_1 =
       Some (resp, s') \<and> durable s' = durable example_state_1) \<and>
   map_option fst (POST_evaluate ''R1'' ''P7'' example_upload example_env example_state_1) =
     Some (ErrorResponse 404 ''Question paper with id P7 not found'')"
proof -
  have a: "''P7'' \<notin> set (map qp_id (question_papers (durable example_state_1)))"
    by code_simp
  have c: "content_type example_upload = Some ''image/png'' \<and> startswith ''image/png'' ''image/'' \<and>
           save_error example_env = None"
    by code_simp
  show ?thesis
    using unknown_paper_not_found [OF a, where roll = "''R1''" and omr_sheet = example_upload
        and e = example_env] a c
    by simp
qed

text \<open>
  The claim as stated fails when the upload is not an image: the content-type check comes
  first, and the request for the unknown paper \<open>P7\<close> is answered with 400, not 404.
\<close>

theorem unknown_paper_counterexample:
  "''P7'' \<notin> set (map qp_id (question_papers (durable example_state_1))) \<and>
   map_option fst (POST_evaluate ''R1'' ''P7'' (example_upload\<lparr>content_type := Some ''text/plain''\<rparr>)
          example_env example_state_1) = Some (ErrorResponse 400 ''File must be an image'')"
  by code_simp

lemma save_upload_file_rng:
  "rng (snd (save_upload_file u e s)) = snd (randbytes 8 (rng s))"
  by (simp add: save_upload_file_def Let_def case_prod_beta
      split: option.splits save_failure.splits)

lemma save_upload_file_fst:
  "fst (save_upload_file u e s) =
     (case save_error e of
        None \<Rightarrow> Inr (UPLOAD_DIR @ ''/'' @ hex (fst (randbytes 8 (rng s))) @ ''_'' @
                  (case filename u of None \<Rightarrow> ''None'' | Some n \<Rightarrow> n))
      | Some (OpenFailed m) \<Rightarrow> Inl (HTTPException 500 (''Error saving file: '' @ m))
      | Some (WriteFailed w m) \<Rightarrow> Inl (HTTPException 500 (''Error saving file: '' @ m)))"
  by (simp add: save_upload_file_def Let_def case_prod_beta
      split: option.splits save_failure.splits)

lemma evaluate_omr_body_rel:
  assumes "txn s1 = txn s2" and "rng s1 = rng s2"
  shows "map_option fst (evaluate_omr_body pid s1) = map_option fst (evaluate_omr_body pid s2)"
  using assms
  by (simp add: evaluate_omr_body_def split: option.splits sum.splits prod.splits)

lemma evaluate_omr_fst:
  "map_option fst (evaluate_omr f pid e s) =
     map_option evaluate_omr_except (map_option fst (evaluate_omr_body pid s))"
  by (simp add: evaluate_omr_def split: option.splits prod.splits)

lemma evaluate_omr_rel:
  assumes "txn s1 = txn s2" and "rng s1 = rng s2"
  shows "map_option fst (evaluate_omr f1 pid e1 s1) = map_option fst (evaluate_omr f2 pid e2 s2)"
  unfolding evaluate_omr_fst using evaluate_omr_body_rel [OF assms, of pid] by simp

lemma evaluate_except_fst:
  "fst (evaluate_except x s1) = fst (evaluate_except x s2)"
  by (cases x) simp_all

lemma commit_rel:
  assumes "txn s1 = txn s2" and "commit_error e1 = commit_error e2"
  shows "(case commit e1 s1 of Inl x \<Rightarrow> commit e2 s2 = Inl x
          | Inr a \<Rightarrow> \<exists>b. commit e2 s2 = Inr b)"
  using assms by (simp add: commit_def split: option.splits)

lemma evaluate_omr_sheet_scored:
  assumes "content_type u = Some ct" and "startswith ct ''image/''"
    and "save_upload_file u e s = (Inr f, a)"
    and "evaluate_omr f pid e a = Some (Inr m, b)"
  shows "evaluate_omr_sheet roll pid u e s =
           Some (case commit e (b\<lparr>txn := (txn b)\<lparr>results := results (txn b) @
                    [\<lparr>result_id = next_result_id (results (txn b)), roll_number = roll,
                      question_paper_id = pid, marks = m\<rparr>]\<rparr>\<rparr>) of
                   Inl x \<Rightarrow> evaluate_except x (b\<lparr>txn := (txn b)\<lparr>results := results (txn b) @
                    [\<lparr>result_id = next_result_id (results (txn b)), roll_number = roll,
                      question_paper_id = pid, marks = m\<rparr>]\<rparr>\<rparr>)
                 | Inr d \<Rightarrow>
                     (Inr \<lparr>result_id = next_result_id (results (txn b)), roll_number = roll,
                           question_paper_id = pid, marks = m\<rparr>, d))"
  using assms by (simp add: evaluate_omr_sheet_def Let_def split: sum.splits)

lemma evaluate_omr_sheet_rel:
  assumes "txn s1 = txn s2" and "rng s1 = rng s2" and "content_type u1 = content_type u2"
    and "save_error e1 = save_error e2" and "commit_error e1 = commit_error e2"
  shows "map_option fst (evaluate_omr_sheet roll pid u1 e1 s1) =
         map_option fst (evaluate_omr_sheet roll pid u2 e2 s2)"
proof (cases "content_type u2")
  case None
  then show ?thesis using assms by (simp add: evaluate_omr_sheet_def)
next
  case (Some ct)
  show ?thesis
  proof (cases "startswith ct ''image/''")
    case False
    then show ?thesis using Some assms by (simp add: evaluate_omr_sheet_def)
  next
    case True
    obtain r1 a1 where sv1: "save_upload_file u1 e1 s1 = (r1, a1)" by (cases "save_upload_file u1 e1 s1")
    obtain r2 a2 where sv2: "save_upload_file u2 e2 s2 = (r2, a2)" by (cases "save_upload_file u2 e2 s2")
    have ta: "txn a1 = txn a2"
      using save_upload_file_db(2) [of u1 e1 s1] save_upload_file_db(2) [of u2 e2 s2] sv1 sv2 assms
      by simp
    have ra: "rng a1 = rng a2"
      using save_upload_file_rng [of u1 e1 s1] save_upload_file_rng [of u2 e2 s2] sv1 sv2 assms
      by simp
    have fr: "(\<exists>x. r1 = Inl x \<and> r2 = Inl x) \<or> (\<exists>f1 f2. r1 = Inr f1 \<and> r2 = Inr f2)"
      using save_upload_file_fst [of u1 e1 s1] save_upload_file_fst [of u2 e2 s2] sv1 sv2 assms(4)
      by (auto split: option.splits save_failure.splits)
    from fr show ?thesis
    proof (elim disjE exE conjE)
      fix x assume "r1 = Inl x" "r2 = Inl x"
      then show ?thesis
        using Some True assms(3) sv1 sv2 evaluate_except_fst [of x a1 a2]
        by (simp add: evaluate_omr_sheet_def)
    next
      fix f1 f2 assume r: "r1 = Inr f1" "r2 = Inr f2"
      note rel = evaluate_omr_rel [OF ta ra, of f1 pid e1 f2 e2]
      show ?thesis
      proof (cases "evaluate_omr f2 pid e2 a2")
        case None
        then have "evaluate_omr f1 pid e1 a1 = None"
          using rel by simp
        then show ?thesis
          using None Some True assms(3) sv1 sv2 r by (simp add: evaluate_omr_sheet_def)
      next
        case ev: (Some p2)
        obtain q2 b2 where p2: "p2 = (q2, b2)" by (cases p2)
        from rel ev obtain p1 where ev1: "evaluate_omr f1 pid e1 a1 = Some p1"
          by (cases "evaluate_omr f1 pid e1 a1") auto
        obtain q1 b1 where p1: "p1 = (q1, b1)" by (cases p1)
        have q: "q1 = q2"
          using rel ev ev1 p1 p2 by simp
        have tb: "txn b1 = txn b2"
          using evaluate_omr_eq [of f1 pid e1 a1 q1 b1] evaluate_omr_eq [of f2 pid e2 a2 q2 b2]
            ev ev1 p1 p2 ta by simp
        show ?thesis
        proof (cases q2)
          case (Inl x)
          then show ?thesis
            using Some True assms(3) sv1 sv2 r ev ev1 p1 p2 q evaluate_except_fst [of x b1 b2]
            by (simp add: evaluate_omr_sheet_def)
        next
          case (Inr m)
          let ?res = "\<lparr>result_id = next_result_id (results (txn b2)), roll_number = roll,
                       question_paper_id = pid, marks = m\<rparr>"
          let ?c1 = "b1\<lparr>txn := (txn b1)\<lparr>results := results (txn b1) @ [?res]\<rparr>\<rparr>"
          let ?c2 = "b2\<lparr>txn := (txn b2)\<lparr>results := results (txn b2) @ [?res]\<rparr>\<rparr>"
          have tc: "txn ?c1 = txn ?c2" using tb by simp
          have l: "map_option fst (evaluate_omr_sheet roll pid u1 e1 s1) =
                     Some (case commit e1 ?c1 of Inl x \<Rightarrow> fst (evaluate_except x ?c1) | Inr d \<Rightarrow> Inr ?res)"
            using evaluate_omr_sheet_scored [of u1 ct e1 s1 f1 a1 pid m b1 roll]
              Some True assms(3) sv1 r ev1 p1 q Inr tb
            by (simp split: sum.splits)
          have rr: "map_option fst (evaluate_omr_sheet roll pid u2 e2 s2) =
                     Some (case commit e2 ?c2 of Inl x \<Rightarrow> fst (evaluate_except x ?c2) | Inr d \<Rightarrow> Inr ?res)"
            using evaluate_omr_sheet_scored [of u2 ct e2 s2 f2 a2 pid m b2 roll]
              Some True sv2 r ev p2 Inr
            by (simp split: sum.splits)
          show ?thesis
            unfolding l rr
            using commit_rel [OF tc assms(5)] evaluate_except_fst [of _ ?c1 ?c2]
            by (auto split: sum.splits)
        qed
      qed
    qed
  qed
qed

lemma POST_evaluate_fst:
  "map_option fst (POST_evaluate roll pid u e s) =
     map_option (\<lambda>q. case q of Inl x \<Rightarrow> exception_handler x | Inr v \<Rightarrow> Response 200 v)
       (map_option fst (evaluate_omr_sheet roll pid u e (session_open s)))"
  by (cases "evaluate_omr_sheet roll pid u e (session_open s)")
    (auto simp: POST_evaluate_def respond_def split: prod.splits sum.splits)

text \<open>
  Claim C9. The marks computed by \<open>evaluate_omr\<close> depend on the paper id, the rows the
  session sees and the state of the generator only: not on the path of the file, on the
  files of the upload directory or on the failures of the file system. The answer to an
  evaluation request is the same for any two uploads of the same declared content type,
  whatever their bytes and names; if the one is not answered, neither is the other.
\<close>

theorem marks_independent_of_upload:
  assumes "durable s1 = durable s2" and "rng s1 = rng s2"
    and "content_type u1 = content_type u2"
  shows "map_option fst (POST_evaluate roll pid u1 e s1) =
           map_option fst (POST_evaluate roll pid u2 e s2) \<and>
         map_option fst (evaluate_omr f1 pid e1 (session_open s1)) =
           map_option fst (evaluate_omr f2 pid e2 (session_open s2))"
proof -
  have t: "txn (session_open s1) = txn (session_open s2)"
    using assms(1) by (simp add: session_open_def)
  have r: "rng (session_open s1) = rng (session_open s2)"
    using assms(2) by (simp add: session_open_def)
  have "map_option fst (evaluate_omr_sheet roll pid u1 e (session_open s1)) =
        map_option fst (evaluate_omr_sheet roll pid u2 e (session_open s2))"
    using t r assms(3) by (rule evaluate_omr_sheet_rel) simp_all
  then have "map_option fst (POST_evaluate roll pid u1 e s1) =
             map_option fst (POST_evaluate roll pid u2 e s2)"
    by (simp add: POST_evaluate_fst)
  then show ?thesis
    using evaluate_omr_rel [OF t r] by simp
qed

theorem marks_independent_of_upload_witness:
  "durable example_state_1 = durable example_state_1 \<and>
   rng example_state_1 = rng example_state_1 \<and>
   content_type example_upload =
     content_type (example_upload\<lparr>filename := Some ''blank.png'', content := ''nothing''\<rparr>) \<and>
   map_option fst (POST_evaluate ''R1'' ''P1'' example_upload example_env example_state_1) =
     Some (Response 200 \<lparr>result_id = 1, roll_number = ''R1'', question_paper_id = ''P1'', marks = 3\<rparr>) \<and>
   map_option fst (POST_evaluate ''R1'' ''P1''
          (example_upload\<lparr>filename := Some ''blank.png'', content := ''nothing''\<rparr>)
          example_env example_state_1) =
     Some (Response 200 \<lparr>result_id = 1, roll_number = ''R1'', question_paper_id = ''P1'', marks = 3\<rparr>)"
proof -
  have c: "content_type example_upload =
     content_type (example_upload\<lparr>filename := Some ''blank.png'', content := ''nothing''\<rparr>)"
    by simp
  have v: "map_option fst (POST_evaluate ''R1'' ''P1'' example_upload example_env example_state_1) =
     Some (Response 200 \<lparr>result_id = 1, roll_number = ''R1'', question_paper_id = ''P1'', marks = 3\<rparr>)"
    by code_simp
  show ?thesis
    using marks_independent_of_upload [OF refl refl c, where roll = "''R1''" and pid = "''P1''"
        and e = example_env and ?s1.0 = example_state_1
        and ?f1.0 = "''a''" and ?f2.0 = "''b''" and ?e1.0 = example_env and ?e2.0 = example_env] v
    by simp
qed

lemma cleanup_file_uploads:
  "uploads (cleanup_file f e s) =
     (if remove_error e = None then (uploads s)(f := None) else uploads s)"
  by (auto simp: cleanup_file_def split: option.splits)

lemma cleanup_file_stdout:
  "stdout (cleanup_file f e s) =
     (case remove_error e of
        None \<Rightarrow> stdout s
      | Some m \<Rightarrow>
          if uploads s f \<noteq> None
          then stdout s @ [''Error cleaning up file '' @ f @ '': '' @ m] else stdout s)"
  by (auto simp: cleanup_file_def split: option.splits)

lemma evaluate_except_files [simp]:
  "uploads (snd (evaluate_except x s)) = uploads s"
  "stdout (snd (evaluate_except x s)) = stdout s"
  by (cases x; simp add: rollback_def)+

lemma evaluate_omr_sheet_saved:
  assumes "content_type u = Some ct" and "startswith ct ''image/''"
    and "save_upload_file u e s = (Inr f, s1)"
  shows "evaluate_omr_sheet roll pid u e s = None \<longleftrightarrow> evaluate_omr_body pid s1 = None"
    and "evaluate_omr_sheet roll pid u e s = Some (q, s') \<Longrightarrow>
           \<exists>q0 s0. evaluate_omr_body pid s1 = Some (q0, s0) \<and>
             uploads s' = uploads (cleanup_file f e s0) \<and>
             stdout s' = stdout (cleanup_file f e s0)"
proof -
  show "evaluate_omr_sheet roll pid u e s = None \<longleftrightarrow> evaluate_omr_body pid s1 = None"
    using assms
    by (auto simp: evaluate_omr_sheet_def evaluate_omr_def Let_def
        split: option.splits prod.splits sum.splits)
next
  assume r: "evaluate_omr_sheet roll pid u e s = Some (q, s')"
  show "\<exists>q0 s0. evaluate_omr_body pid s1 = Some (q0, s0) \<and>
             uploads s' = uploads (cleanup_file f e s0) \<and>
             stdout s' = stdout (cleanup_file f e s0)"
  proof (cases "evaluate_omr_body pid s1")
    case None
    then show ?thesis
      using r assms by (simp add: evaluate_omr_sheet_def evaluate_omr_def)
  next
    case (Some p)
    obtain q0 s0 where p: "p = (q0, s0)" by (cases p)
    have ev: "evaluate_omr f pid e s1 = Some (evaluate_omr_except q0, cleanup_file f e s0)"
      using Some p by (simp add: evaluate_omr_def)
    have "uploads s' = uploads (cleanup_file f e s0) \<and> stdout s' = stdout (cleanup_file f e s0)"
    proof (cases "evaluate_omr_except q0")
      case (Inl x)
      then have "(q, s') = evaluate_except x (cleanup_file f e s0)"
        using r assms ev by (simp add: evaluate_omr_sheet_def)
      then have "s' = snd (evaluate_except x (cleanup_file f e s0))"
        by (simp add: prod_eq_iff)
      then show ?thesis by simp
    next
      case (Inr m)
      from r [unfolded evaluate_omr_sheet_scored [OF assms ev [unfolded Inr]]]
      show ?thesis
        by (auto simp: prod_eq_iff split: sum.splits dest!: commit_Inr)
    qed
    then show ?thesis using Some p by simp
  qed
qed

lemma save_upload_file_Inr:
  assumes "save_upload_file u e s = (Inr f, s1)"
  shows "uploads s1 = (uploads s)(f \<mapsto> content u)" and "stdout s1 = stdout s"
  using assms
  by (auto simp: save_upload_file_def Let_def case_prod_beta
      split: option.splits save_failure.splits)

lemma POST_evaluate_None:
  "POST_evaluate roll pid u e s = None \<longleftrightarrow> evaluate_omr_sheet roll pid u e (session_open s) = None"
  by (simp add: POST_evaluate_def)

text \<open>
  Claim C7. Whenever the upload was saved, whatever the scoring does afterwards (marks, a
  not-found error or any other exception), \<open>cleanup_file\<close> runs on the saved file: if
  removing succeeds the file is gone after the request; if removing raises, the message
  is printed, the file remains, and the answer is the one the request gets when removing
  succeeds, so the failure is not propagated. The request is answered whenever the scoring
  returns.
\<close>

theorem saved_file_cleaned_up:
  assumes "content_type omr_sheet = Some ct" and "startswith ct ''image/''"
    and "save_upload_file omr_sheet e (session_open s) = (Inr file_path, s1)"
  shows "(\<forall>resp s'. POST_evaluate roll pid omr_sheet e s = Some (resp, s') \<longrightarrow>
            (remove_error e = None \<longrightarrow> uploads s' file_path = None) \<and>
            (\<forall>m. remove_error e = Some m \<longrightarrow>
               stdout s' = stdout s @ [''Error cleaning up file '' @ file_path @ '': '' @ m] \<and>
               uploads s' file_path = Some (content omr_sheet))) \<and>
         map_option fst (POST_evaluate roll pid omr_sheet e s) =
           map_option fst (POST_evaluate roll pid omr_sheet (e\<lparr>remove_error := None\<rparr>) s) \<and>
         (POST_evaluate roll pid omr_sheet e s = None \<longleftrightarrow> evaluate_omr_body pid s1 = None)"
proof -
  note saved = save_upload_file_Inr [OF assms(3)]
  have "map_option fst (evaluate_omr_sheet roll pid omr_sheet e (session_open s)) =
        map_option fst (evaluate_omr_sheet roll pid omr_sheet (e\<lparr>remove_error := None\<rparr>) (session_open s))"
    by (rule evaluate_omr_sheet_rel) simp_all
  then have same: "map_option fst (POST_evaluate roll pid omr_sheet e s) =
           map_option fst (POST_evaluate roll pid omr_sheet (e\<lparr>remove_error := None\<rparr>) s)"
    by (simp add: POST_evaluate_fst)
  have none: "POST_evaluate roll pid omr_sheet e s = None \<longleftrightarrow> evaluate_omr_body pid s1 = None"
    unfolding POST_evaluate_None by (rule evaluate_omr_sheet_saved(1) [OF assms])
  have files: "(remove_error e = None \<longrightarrow> uploads s' file_path = None) \<and>
            (\<forall>m. remove_error e = Some m \<longrightarrow>
               stdout s' = stdout s @ [''Error cleaning up file '' @ file_path @ '': '' @ m] \<and>
               uploads s' file_path = Some (content omr_sheet))"
    if p: "POST_evaluate roll pid omr_sheet e s = Some (resp, s')" for resp s'
  proof -
    from POST_evaluate_Some [OF p] obtain q b where
      r: "evaluate_omr_sheet roll pid omr_sheet e (session_open s) = Some (q, b)"
      and s': "s' = session_close b"
      by blast
    from evaluate_omr_sheet_saved(2) [OF assms r] obtain q0 s0 where
      b: "evaluate_omr_body pid s1 = Some (q0, s0)"
      and u: "uploads b = uploads (cleanup_file file_path e s0)"
      and o: "stdout b = stdout (cleanup_file file_path e s0)"
      by blast
    note body = evaluate_omr_body_Some(3,4) [OF b]
    have u': "uploads s' = uploads b" and o': "stdout s' = stdout b"
      using s' by (simp_all add: session_close_def)
    show ?thesis
      unfolding u' o' u o
      by (simp add: cleanup_file_uploads cleanup_file_stdout body saved session_open_def)
  qed
  show ?thesis using same none files by blast
qed

theorem saved_file_cleaned_up_witness:
  "content_type example_upload = Some ''image/png'' \<and> startswith ''image/png'' ''image/'' \<and>
   fst (save_upload_file example_upload (example_env\<lparr>remove_error := Some ''Permission denied''\<rparr>)
     (session_open example_state_1)) = Inr ''uploads/0000006000000060_sheet.png'' \<and>
   remove_error (example_env\<lparr>remove_error := Some ''Permission denied''\<rparr>) = Some ''Permission denied'' \<and>
   map_option fst (POST_evaluate ''R1'' ''P1'' example_upload
      (example_env\<lparr>remove_error := Some ''Permission denied''\<rparr>) example_state_1) =
     Some (Response 200 \<lparr>result_id = 1, roll_number = ''R1'', question_paper_id = ''P1'', marks = 3\<rparr>) \<and>
   stdout (snd (the (POST_evaluate ''R1'' ''P1'' example_upload
      (example_env\<lparr>remove_error := Some ''Permission denied''\<rparr>) example_state_1))) =
     stdout example_state_1 @
       [''Error cleaning up file uploads/0000006000000060_sheet.png: Permission denied''] \<and>
   uploads (snd (the (POST_evaluate ''R1'' ''P1'' example_upload
      (example_env\<lparr>remove_error := Some ''Permission denied''\<rparr>) example_state_1)))
      ''uploads/0000006000000060_sheet.png'' = Some (content example_upload) \<and>
   map_option fst (POST_evaluate ''R1'' ''P1'' example_upload
      (example_env\<lparr>remove_error := Some ''Permission denied''\<rparr>) example_state_1) =
     map_option fst (POST_evaluate ''R1'' ''P1'' example_upload
      (example_env\<lparr>remove_error := Some ''Permission denied'', remove_error := None\<rparr>) example_state_1)"
proof -
  let ?e = "example_env\<lparr>remove_error := Some ''Permission denied''\<rparr>"
  have c: "content_type example_upload = Some ''image/png''" and i: "startswith ''image/png'' ''image/''"
    by code_simp+
  have f: "fst (save_upload_file example_upload ?e (session_open example_state_1)) =
             Inr ''uploads/0000006000000060_sheet.png''"
    by code_simp
  then have sv: "save_upload_file example_upload ?e (session_open example_state_1) =
      (Inr ''uploads/0000006000000060_sheet.png'',
       snd (save_upload_file example_upload ?e (session_open example_state_1)))"
    by (simp add: prod_eq_iff)
  have r: "remove_error ?e = Some ''Permission denied''"
    by simp
  have v: "map_option fst (POST_evaluate ''R1'' ''P1'' example_upload ?e example_state_1) =
     Some (Response 200 \<lparr>result_id = 1, roll_number = ''R1'', question_paper_id = ''P1'', marks = 3\<rparr>)"
    by code_simp
  note p = map_option_fst_Some [OF v]
  note th = saved_file_cleaned_up [OF c i sv, where roll = "''R1''" and pid = "''P1''"]
  from th [THEN conjunct1, THEN spec, THEN spec, THEN mp, OF p, THEN conjunct2, THEN spec, THEN mp, OF r]
    th [THEN conjunct2, THEN conjunct1] c i f r v
  show ?thesis by simp
qed





lemma draws_length [simp]: "length (draws k g j) = j"
  by (induction j arbitrary: g) simp_all




lemma randbelow_while_returns:
  assumes "first_below n (r # draws k g j) = Some x"
  shows "\<exists>g'. randbelow_while n k r g = Some (x, g')"
  using assms
proof (induction j arbitrary: r g)
  case 0
  then show ?case
    by (subst randbelow_while.simps) (auto simp: first_below_def split: if_splits)
next
  case (Suc j)
  show ?case
  proof (cases "r < n")
    case True
    then show ?thesis
      using Suc.prems by (subst randbelow_while.simps) (simp add: first_below_def)
  next
    case False
    then have "first_below n (fst (getrandbits k g) # draws k (snd (getrandbits k g)) j) = Some x"
      using Suc.prems by (simp add: first_below_def)
    from Suc.IH [OF this] show ?thesis
      using False by (subst randbelow_while.simps) simp
  qed
qed


lemma randbelow_with_getrandbits_returns:
  assumes "first_below n (draws (bit_length n) g j) = Some x"
  shows "\<exists>g'. randbelow_with_getrandbits n g = Some (x, g')"
proof (cases j)
  case 0
  then show ?thesis using assms by (simp add: first_below_def)
next
  case (Suc i)
  then have "first_below n (fst (getrandbits (bit_length n) g) #
      draws (bit_length n) (snd (getrandbits (bit_length n) g)) i) = Some x"
    using assms by simp
  from randbelow_while_returns [OF this] show ?thesis
    by (simp add: randbelow_with_getrandbits_def Let_def)
qed










end
